theory Spec2Isabelle
  imports Complex_Main "HOL-Library.Word"
begin

unbundle bit_operations_syntax

section \<open>Data model of the Array class\<close>

text \<open>
  The two generations of \<open>multiarray.hpp\<close> (\<open>src/librapid/array\<close> and
  \<open>LEGACY/src/librapid/array\<close>) declare the same private fields of \<open>Array\<close>.
  The enumerations \<open>Accelerator\<close> and \<open>Datatype\<close> and the classes \<open>Extent\<close> and
  \<open>Stride\<close> are declared in headers that are not part of the sources at hand.
\<close>

text \<open>
  Modelled from the spec: the enumeration \<open>Accelerator\<close> (\<open>config.hpp\<close>). The code
  names the three values \<open>Accelerator::NONE\<close>, \<open>CPU\<close> and \<open>GPU\<close>; the order is the
  one under which "if either operand is Gpu, the result is Gpu" holds for \<open>max\<close>.
\<close>

datatype Accelerator = Accelerator_NONE | CPU | GPU

fun acceleratorOrdinal :: "Accelerator \<Rightarrow> nat" where
  "acceleratorOrdinal Accelerator_NONE = 0"
| "acceleratorOrdinal CPU = 1"
| "acceleratorOrdinal GPU = 2"

text \<open>
  Modelled from the spec: the enumeration \<open>Datatype\<close> (\<open>autocast.hpp\<close>), in the order
  the spec lists it and the \<open>switch\<close> of \<open>Array::operator T\<close> walks it.
\<close>

datatype Datatype =
  NONE | VALIDNONE | INT32 | INT64 | FLOAT32 | FLOAT64 | CFLOAT32 | CFLOAT64

fun datatypeOrdinal :: "Datatype \<Rightarrow> nat" where
  "datatypeOrdinal NONE = 0"
| "datatypeOrdinal VALIDNONE = 1"
| "datatypeOrdinal INT32 = 2"
| "datatypeOrdinal INT64 = 3"
| "datatypeOrdinal FLOAT32 = 4"
| "datatypeOrdinal FLOAT64 = 5"
| "datatypeOrdinal CFLOAT32 = 6"
| "datatypeOrdinal CFLOAT64 = 7"

text \<open>\<open>max(a, b)\<close> on an enumeration: \<open>(a < b) ? b : a\<close> on the ordinals.\<close>

definition maxAccelerator :: "Accelerator \<Rightarrow> Accelerator \<Rightarrow> Accelerator" where
  "maxAccelerator a b = (if acceleratorOrdinal a < acceleratorOrdinal b then b else a)"

definition maxDatatype :: "Datatype \<Rightarrow> Datatype \<Rightarrow> Datatype" where
  "maxDatatype a b = (if datatypeOrdinal a < datatypeOrdinal b then b else a)"

text \<open>
  Modelled from the spec: \<open>Extent\<close> (\<open>extent.hpp\<close>), a vector of signed sizes with
  structural equality; \<open>size()\<close> is the product of the dimensions, 1 for no dimension.
\<close>

type_synonym Extent = "int list"

definition Extent_size :: "Extent \<Rightarrow> int" where
  "Extent_size e = prod_list e"

text \<open>
  Modelled from the spec: \<open>Stride\<close> (\<open>stride.hpp\<close>), the element-stride vector with
  its two cached flags. \<open>operator==\<close> compares the stride vectors.
\<close>

record Stride =
  strideData :: "int list"
  isTrivial :: bool
  isContiguous :: bool

definition Stride_eq :: "Stride \<Rightarrow> Stride \<Rightarrow> bool" where
  "Stride_eq s t = (strideData s = strideData t)"

fun rowMajor :: "int list \<Rightarrow> int list" where
  "rowMajor [] = []"
| "rowMajor (d # ds) = prod_list ds # rowMajor ds"

definition Stride_fromExtent :: "Extent \<Rightarrow> Stride" where
  "Stride_fromExtent e =
     \<lparr>strideData = rowMajor e, isTrivial = True, isContiguous = True\<rparr>"

text \<open>\<open>s.isTrivial() && s.isContiguous()\<close>, the test every dispatcher makes.\<close>

definition trivialAndContiguous :: "Stride \<Rightarrow> bool" where
  "trivialAndContiguous s = (isTrivial s \<and> isContiguous s)"

text \<open>Pointers are addresses; \<open>nullptr\<close> is \<open>None\<close>.\<close>

type_synonym addr = nat

record Array =
  m_location :: Accelerator
  m_dtype :: Datatype
  m_dataStart :: "addr option"
  m_dataOrigin :: "addr option"
  m_references :: "addr option"
  m_extent :: Extent
  m_stride :: Stride
  m_isScalar :: bool
  m_isChild :: bool

text \<open>
  The default constructor leaves the member initialisers of the class, with an empty
  extent and stride.
\<close>

definition Array_default :: Array where
  "Array_default =
     \<lparr>m_location = CPU, m_dtype = NONE, m_dataStart = None, m_dataOrigin = None,
      m_references = None, m_extent = [], m_stride = Stride_fromExtent [],
      m_isScalar = False, m_isChild = False\<rparr>"

section \<open>Memory: storage blocks and reference counters\<close>

text \<open>
  A scalar handed to a constructor, and what a storage element holds: nothing yet, or a
  scalar converted to the element type of the block (the conversion itself, a C++
  implicit conversion into \<open>int32_t\<close>, \<open>float\<close>, \<open>Complex<double>\<close> ..., is kept
  symbolic).
\<close>

datatype scalar =
  BoolVal bool | IntVal int | FloatVal real | DoubleVal real
  | ComplexFloatVal complex | ComplexDoubleVal complex

datatype element = Uninitialised | Converted Datatype scalar

record buffer =
  bufLocation :: Accelerator
  bufDtype :: Datatype
  bufData :: "element list"

text \<open>
  The state the constructors, \<open>increment\<close> and \<open>decrement\<close> work on: the build option
  \<open>LIBRAPID_HAS_CUDA\<close>, the live storage blocks by base address, the live
  \<open>std::atomic\<close> counters (64 bits wide in both generations) by address, the calls of
  the deallocator in the order they happened, and the next unused address.
\<close>

record memory =
  hasCuda :: bool
  storage :: "addr \<rightharpoonup> buffer"
  counters :: "addr \<rightharpoonup> 64 word"
  freed :: "(addr option \<times> Datatype \<times> Accelerator) list"
  nextAddr :: addr

datatype error =
    ShapeMismatch
  | DestinationMismatch
  | Uninitialized
  | CudaNotEnabled
  | DeviceUnavailable
  | InvalidMapOperand
  | AssertionFailed

text \<open>
  \<^item> \<open>ShapeMismatch\<close>: \<open>std::invalid_argument("Cannot operate on two arrays with
    <extent> and <extent>")\<close>;
  \<^item> \<open>DestinationMismatch\<close>: \<open>std::invalid_argument("Cannot operate on ... and store
    the result in <extent>")\<close>;
  \<^item> \<open>Uninitialized\<close>: \<open>std::invalid_argument("Cannot operate on an uninitialized
    array")\<close>;
  \<^item> \<open>CudaNotEnabled\<close>: \<open>std::invalid_argument("CUDA support was not enabled, so a
    value cannot be created on the GPU")\<close>;
  \<^item> \<open>DeviceUnavailable\<close>: the allocator's failure named by the spec;
  \<^item> \<open>InvalidMapOperand\<close>: \<open>std::runtime_error("Please read the documentation for
    valid inputs to the mapKernel function")\<close>;
  \<^item> \<open>AssertionFailed\<close>: a failed \<open>LR_ASSERT\<close>.
\<close>


text \<open>
  Modelled from the spec: \<open>Array::constructNew\<close> (declared in the class, defined in
  the missing \<open>multiarray.cpp\<close>). It allocates a fresh storage of \<open>extent.size()\<close>
  elements on the device, takes the stride it is given, and starts the reference count
  at 1; the allocation fails with \<open>DeviceUnavailable\<close> when the GPU is requested but
  not compiled in. Memory is taken to be unbounded.
\<close>

definition constructNew ::
  "Extent \<Rightarrow> Stride \<Rightarrow> Datatype \<Rightarrow> Accelerator \<Rightarrow> memory \<Rightarrow> (error \<times> memory) + (Array \<times> memory)" where
  "constructNew e s dtype location mem =
     (if location = GPU \<and> \<not> hasCuda mem then Inl (DeviceUnavailable, mem)
      else
        let block = nextAddr mem;
            counter = nextAddr mem + 1
        in Inr
          (\<lparr>m_location = location, m_dtype = dtype, m_dataStart = Some block,
            m_dataOrigin = Some block, m_references = Some counter, m_extent = e,
            m_stride = s, m_isScalar = False, m_isChild = False\<rparr>,
           mem\<lparr>storage := (storage mem)(block \<mapsto>
                   \<lparr>bufLocation = location, bufDtype = dtype,
                    bufData = replicate (nat (Extent_size e)) Uninitialised\<rparr>),
               counters := (counters mem)(counter \<mapsto> 1),
               nextAddr := nextAddr mem + 2\<rparr>))"

text \<open>
  Modelled from the spec: the constructor \<open>Array(const Extent &, Datatype,
  Accelerator)\<close> (declared in the class, defined in the missing \<open>multiarray.cpp\<close>):
  a fresh storage with the trivial stride of the extent.
\<close>

definition Array_fromExtent ::
  "Extent \<Rightarrow> Datatype \<Rightarrow> Accelerator \<Rightarrow> memory \<Rightarrow> (error \<times> memory) + (Array \<times> memory)" where
  "Array_fromExtent e dtype location mem =
     constructNew e (Stride_fromExtent e) dtype location mem"

section \<open>Element-wise dispatch\<close>

text \<open>
  The kernels \<open>imp::multiarrayBinaryOpTrivial\<close>, \<open>imp::multiarrayBinaryOpComplex\<close>
  and their unary counterparts live in \<open>multiarray_operations.hpp\<close>; the embedding
  records which of the two the dispatcher invoked.
\<close>

datatype path = TrivialKernel | ComplexKernel

subsection \<open>\<open>src/librapid/array/multiarray.hpp\<close>\<close>


definition applyBinaryOp_inplace ::
  "Array \<Rightarrow> Array \<Rightarrow> Array \<Rightarrow> (error \<times> Array) + (Array \<times> path)" where
  "applyBinaryOp_inplace a b res =
     (if m_extent a \<noteq> m_extent b then Inl (ShapeMismatch, res)
      else if m_references res = None \<or> m_extent res \<noteq> m_extent a
        then Inl (DestinationMismatch, res)
      else
        let (res1, p) =
              (if (isTrivial (m_stride a) \<and> isContiguous (m_stride a) \<and>
                   isTrivial (m_stride b) \<and> isContiguous (m_stride b)) \<or>
                  Stride_eq (m_stride a) (m_stride b)
               then (res\<lparr>m_stride := m_stride a\<rparr>, TrivialKernel)
               else (res, ComplexKernel))
        in Inr (if m_isScalar a \<and> m_isScalar b then res1\<lparr>m_isScalar := True\<rparr> else res1,
                p))"

definition applyBinaryOp ::
  "Array \<Rightarrow> Array \<Rightarrow> memory \<Rightarrow> (error \<times> memory) + (Array \<times> path \<times> memory)" where
  "applyBinaryOp a b mem =
     (if \<not> (m_isScalar a \<or> m_isScalar b) \<and> m_extent a \<noteq> m_extent b
        then Inl (ShapeMismatch, mem)
      else
        let newLoc = maxAccelerator (m_location a) (m_location b);
            newType = maxDatatype (m_dtype a) (m_dtype b)
        in case Array_fromExtent (m_extent a) newType newLoc mem of
             Inl err \<Rightarrow> Inl err
           | Inr (res, mem') \<Rightarrow>
               let (res1, p) =
                     (if (isTrivial (m_stride a) \<and> isContiguous (m_stride a) \<and>
                          isTrivial (m_stride b) \<and> isContiguous (m_stride b)) \<or>
                         Stride_eq (m_stride a) (m_stride b)
                      then (res\<lparr>m_stride := m_stride a\<rparr>, TrivialKernel)
                      else (res, ComplexKernel))
               in Inr (if m_isScalar a \<and> m_isScalar b
                       then res1\<lparr>m_isScalar := True\<rparr> else res1,
                       p, mem'))"

subsection \<open>\<open>LEGACY/src/librapid/array/multiarray.hpp\<close>\<close>

text \<open>
  The legacy entry points take \<open>permitInvalid\<close> (default \<open>false\<close>), which switches
  the validation off. \<open>dstOffset\<close> and \<open>permitVectorize\<close> only reach the kernels.
\<close>

definition LEGACY_applyUnaryOp_inplace ::
  "Array \<Rightarrow> Array \<Rightarrow> bool \<Rightarrow> (error \<times> Array) + (Array \<times> path)" where
  "LEGACY_applyUnaryOp_inplace dst src permitInvalid =
     (if \<not> permitInvalid \<and> (m_references dst = None \<or> m_extent dst \<noteq> m_extent src)
        then Inl (DestinationMismatch, dst)
      else
        let p = (if \<not> permitInvalid \<and> isTrivial (m_stride dst) \<and>
                    isContiguous (m_stride dst) \<and> isTrivial (m_stride src) \<and>
                    isContiguous (m_stride src)
                 then TrivialKernel else ComplexKernel)
        in Inr (dst\<lparr>m_isScalar := m_isScalar src\<rparr>, p))"



definition LEGACY_applyBinaryOp_inplace ::
  "Array \<Rightarrow> Array \<Rightarrow> Array \<Rightarrow> bool \<Rightarrow>
   (error \<times> Array) + (Array \<times> path)" where
  "LEGACY_applyBinaryOp_inplace dst srcA srcB permitInvalid =
     (if \<not> permitInvalid \<and> (\<not> m_isScalar srcA \<and> \<not> m_isScalar srcB \<and>
                              m_extent srcA \<noteq> m_extent srcB)
        then Inl (ShapeMismatch, dst)
      else if \<not> permitInvalid \<and> (m_references dst = None \<or> m_extent dst \<noteq> m_extent srcA)
        then Inl (DestinationMismatch, dst)
      else
        let (dst1, p) =
              (if (isTrivial (m_stride srcA) \<and> isContiguous (m_stride srcA) \<and>
                   isTrivial (m_stride srcB) \<and> isContiguous (m_stride srcB)) \<or>
                  Stride_eq (m_stride srcA) (m_stride srcB)
               then (dst\<lparr>m_stride := (if m_isScalar srcA then m_stride srcB
                                        else m_stride srcA)\<rparr>, TrivialKernel)
               else (dst, ComplexKernel))
        in Inr (if m_isScalar srcA \<and> m_isScalar srcB
                then dst1\<lparr>m_isScalar := True\<rparr> else dst1,
                p))"

definition LEGACY_applyBinaryOp ::
  "Array \<Rightarrow> Array \<Rightarrow> bool \<Rightarrow> memory \<Rightarrow>
   (error \<times> memory) + (Array \<times> path \<times> memory)" where
  "LEGACY_applyBinaryOp srcA srcB permitInvalid mem =
     (if \<not> permitInvalid \<and> \<not> (m_isScalar srcA \<or> m_isScalar srcB) \<and>
         m_extent srcA \<noteq> m_extent srcB
        then Inl (ShapeMismatch, mem)
      else
        let newLoc = maxAccelerator (m_location srcA) (m_location srcB);
            newType = maxDatatype (m_dtype srcA) (m_dtype srcB)
        in case Array_fromExtent (if m_isScalar srcA then m_extent srcB else m_extent srcA)
                  newType newLoc mem of
             Inl err \<Rightarrow> Inl err
           | Inr (dst, mem') \<Rightarrow>
               let (dst1, p) =
                     (if (isTrivial (m_stride srcA) \<and> isContiguous (m_stride srcA) \<and>
                          isTrivial (m_stride srcB) \<and> isContiguous (m_stride srcB)) \<or>
                         Stride_eq (m_stride srcA) (m_stride srcB)
                      then (dst\<lparr>m_stride := (if m_isScalar srcA then m_stride srcB
                                               else m_stride srcA)\<rparr>, TrivialKernel)
                      else (dst, ComplexKernel))
               in Inr (if m_isScalar srcA \<and> m_isScalar srcB
                       then dst1\<lparr>m_isScalar := True\<rparr> else dst1,
                       p, mem'))"

section \<open>Reference counting\<close>

text \<open>
  Modelled from the spec: the deallocator (\<open>AUTOCAST_FREE\<close> in the current header,
  \<open>rawArrayFree\<close> in the legacy one; both defined outside the sources at hand). It
  releases the block at the base address it is given; every call is recorded.
\<close>

definition freeStorage :: "addr option \<times> Datatype \<times> Accelerator \<Rightarrow> memory \<Rightarrow> memory" where
  "freeStorage raw mem =
     mem\<lparr>storage := (case fst raw of None \<Rightarrow> storage mem
                       | Some p \<Rightarrow> (storage mem)(p := None)),
         freed := freed mem @ [raw]\<rparr>"

text \<open>
  \<open>increment\<close> and \<open>decrement\<close> dereference \<open>m_references\<close>. A counter that has
  been deleted is no longer in \<open>counters\<close>; touching it is undefined behaviour, which
  the embedding reports as \<open>None\<close>.
\<close>

definition increment :: "Array \<Rightarrow> memory \<Rightarrow> memory option" where
  "increment a mem =
     (case m_references a of
        None \<Rightarrow> Some mem
      | Some r \<Rightarrow>
          (case counters mem r of
             None \<Rightarrow> None
           | Some c \<Rightarrow> Some (mem\<lparr>counters := (counters mem)(r \<mapsto> c + 1)\<rparr>)))"

definition decrement :: "Array \<Rightarrow> memory \<Rightarrow> memory option" where
  "decrement a mem =
     (case m_references a of
        None \<Rightarrow> Some mem
      | Some r \<Rightarrow>
          (case counters mem r of
             None \<Rightarrow> None
           | Some c \<Rightarrow>
               if c - 1 = 0
               then Some (freeStorage (m_dataOrigin a, m_dtype a, m_location a) mem
                            \<lparr>counters := (counters mem)(r := None)\<rparr>)
               else Some (mem\<lparr>counters := (counters mem)(r \<mapsto> c - 1)\<rparr>)))"

text \<open>
  The legacy \<open>decrement\<close> frees \<open>createRaw()\<close>. \<open>Array::createRaw\<close> is declared in
  the class and defined outside the sources at hand, so it is a parameter here;
  \<open>LEGACY_createRaw\<close> below is what the class documents it to return.
\<close>

definition LEGACY_decrement ::
  "(Array \<Rightarrow> addr option \<times> Datatype \<times> Accelerator) \<Rightarrow> Array \<Rightarrow> memory \<Rightarrow> memory option" where
  "LEGACY_decrement createRaw a mem =
     (case m_references a of
        None \<Rightarrow> Some mem
      | Some r \<Rightarrow>
          (case counters mem r of
             None \<Rightarrow> None
           | Some c \<Rightarrow>
               if c - 1 = 0
               then Some (freeStorage (createRaw a) mem
                            \<lparr>counters := (counters mem)(r := None)\<rparr>)
               else Some (mem\<lparr>counters := (counters mem)(r \<mapsto> c - 1)\<rparr>)))"

text \<open>
  Modelled from the spec: \<open>Array::createRaw\<close> of the legacy class (declared there
  and documented as returning "the memory location of the Array's data, its datatype
  and its location"; defined in the missing \<open>multiarray.cpp\<close>). The header reads and
  writes the elements of an Array through it (\<open>operator=\<close>, \<open>operator T\<close>,
  \<open>applyUnaryOp\<close>), so the location is the start of the view, the pointer the spec
  keeps for access.
\<close>

definition LEGACY_createRaw :: "Array \<Rightarrow> addr option \<times> Datatype \<times> Accelerator" where
  "LEGACY_createRaw a = (m_dataStart a, m_dtype a, m_location a)"

text \<open>
  Modelled from the spec: the copy constructor \<open>Array(const Array &other)\<close> (declared
  in the class, defined in the missing \<open>multiarray.cpp\<close>): the new Array shares the
  storage, copies extent, stride and flags, and increments the reference count; an
  uninitialised \<open>other\<close> leaves the new Array uninitialised.
\<close>

definition referenceCopy :: "Array \<Rightarrow> memory \<Rightarrow> (Array \<times> memory) option" where
  "referenceCopy other mem =
     (if m_references other = None then Some (Array_default, mem)
      else map_option (\<lambda>mem'. (other, mem')) (increment other mem))"

text \<open>\<open>k\<close> reference copies of one source, made one after the other.\<close>

fun makeAliases :: "nat \<Rightarrow> Array \<Rightarrow> memory \<Rightarrow> (Array list \<times> memory) option" where
  "makeAliases 0 a mem = Some ([], mem)"
| "makeAliases (Suc k) a mem =
     (case referenceCopy a mem of
        None \<Rightarrow> None
      | Some (c, mem') \<Rightarrow> map_option (\<lambda>(cs, mem''). (c # cs, mem'')) (makeAliases k a mem'))"

text \<open>
  Modelled from the spec: the destructor \<open>~Array()\<close> (declared in the class, defined in
  the missing \<open>multiarray.cpp\<close>) decrements. Dropping a list of Arrays destroys them
  from the head on.
\<close>

fun dropAll :: "Array list \<Rightarrow> memory \<Rightarrow> memory option" where
  "dropAll [] mem = Some mem"
| "dropAll (a # as) mem =
     (case decrement a mem of None \<Rightarrow> None | Some mem' \<Rightarrow> dropAll as mem')"

fun LEGACY_dropAll ::
  "(Array \<Rightarrow> addr option \<times> Datatype \<times> Accelerator) \<Rightarrow> Array list \<Rightarrow> memory \<Rightarrow> memory option" where
  "LEGACY_dropAll createRaw [] mem = Some mem"
| "LEGACY_dropAll createRaw (a # as) mem =
     (case LEGACY_decrement createRaw a mem of
        None \<Rightarrow> None
      | Some mem' \<Rightarrow> LEGACY_dropAll createRaw as mem')"

text \<open>The Arrays of a list all name the counter \<open>r\<close> and the storage \<open>raw\<close>.\<close>

definition sharing ::
  "addr \<Rightarrow> addr option \<times> Datatype \<times> Accelerator \<Rightarrow> Array list \<Rightarrow> bool" where
  "sharing r raw cs =
     list_all (\<lambda>c. m_references c = Some r \<and>
                    (m_dataOrigin c, m_dtype c, m_location c) = raw) cs"

section \<open>Scalar constructors\<close>

text \<open>
  \<open>initializeCudaStream\<close> creates the stream once, under the build options
  \<open>LIBRAPID_HAS_CUDA\<close> and \<open>LIBRAPID_CUDA_STREAM\<close>. The stream is not part of
  \<open>memory\<close>: no block, counter or deallocation depends on it.
\<close>

text \<open>\<open>*data = val\<close> through the typed pointer \<open>m_dataStart\<close>.\<close>

definition writeFirst :: "addr option \<Rightarrow> element \<Rightarrow> memory \<Rightarrow> memory" where
  "writeFirst p v mem =
     (case p of
        None \<Rightarrow> mem
      | Some q \<Rightarrow>
          (case storage mem q of
             None \<Rightarrow> mem
           | Some buf \<Rightarrow>
               mem\<lparr>storage := (storage mem)(q \<mapsto> buf\<lparr>bufData := (bufData buf)[0 := v]\<rparr>)\<rparr>))"

text \<open>\<open>int64_t tempVal = val\<close>: the value as a signed 64-bit integer.\<close>

definition toInt64 :: "int \<Rightarrow> int" where
  "toInt64 v = sint (word_of_int v :: 64 word)"

text \<open>
  The template constructor \<open>Array(T val, Datatype dtype, Accelerator locn)\<close> for
  integral \<open>T\<close> of the legacy header (defaults \<open>INT64\<close> and \<open>CPU\<close>). \<open>Extent(1)\<close> is
  the extent \<open>[1]\<close> and \<open>Stride(1)\<close> its stride. With CUDA the value reaches the
  device through \<open>rawArrayMemcpy\<close> from a host \<open>int64_t\<close>.
\<close>

definition LEGACY_Array_fromIntegral ::
  "int \<Rightarrow> Datatype \<Rightarrow> Accelerator \<Rightarrow> memory \<Rightarrow> (error \<times> memory) + (Array \<times> memory)" where
  "LEGACY_Array_fromIntegral val dtype locn mem =
     (case constructNew [1] (Stride_fromExtent [1]) dtype locn mem of
        Inl err \<Rightarrow> Inl err
      | Inr (arr, mem1) \<Rightarrow>
          let arr1 = arr\<lparr>m_isScalar := True\<rparr>
          in if locn = CPU
             then Inr (arr1, writeFirst (m_dataStart arr1) (Converted dtype (IntVal val)) mem1)
             else if hasCuda mem1
             then Inr (arr1,
                       writeFirst (m_dataStart arr1)
                         (Converted dtype (IntVal (toInt64 val))) mem1)
             else Inl (CudaNotEnabled, mem1))"

text \<open>
  Modelled from the spec: the scalar constructors for \<open>bool\<close>, \<open>float\<close>, \<open>double\<close> and
  the complex types (declared in the class, defined in the missing \<open>multiarray.cpp\<close>):
  one element is allocated, the value converted to the requested dtype is written,
  \<open>isScalar\<close> is set and the extent is \<open>[1]\<close>.
\<close>

definition Array_fromScalar ::
  "scalar \<Rightarrow> Datatype \<Rightarrow> Accelerator \<Rightarrow> memory \<Rightarrow> (error \<times> memory) + (Array \<times> memory)" where
  "Array_fromScalar val dtype locn mem =
     (case constructNew [1] (Stride_fromExtent [1]) dtype locn mem of
        Inl err \<Rightarrow> Inl err
      | Inr (arr, mem1) \<Rightarrow>
          let arr1 = arr\<lparr>m_isScalar := True\<rparr>
          in Inr (arr1, writeFirst (m_dataStart arr1) (Converted dtype val) mem1))"

section \<open>fillRandom\<close>

text \<open>
  The three function-local statics of \<open>Array::fillRandom\<close>, with their initial
  values. The default argument \<open>seed = -1\<close> is the all-ones \<open>uint64_t\<close>.
\<close>

record seedState =
  statSeed :: "64 word"
  prevSeed :: "64 word"
  statSeedSet :: bool

definition seedState_initial :: seedState where
  "seedState_initial = \<lparr>statSeed = 0, prevSeed = - 1, statSeedSet = False\<rparr>"

text \<open>
  \<open>clock\<close> is the value of \<open>(uint64_t)(seconds() * 10)\<close> at the call. The result is
  the new statics and the outcome of \<open>applyUnaryOp(*this, *this, FillRandom(min, max,
  statSeed))\<close>, paired with the seed handed to the kernel.
\<close>

definition fillRandom ::
  "Array \<Rightarrow> 64 word \<Rightarrow> 64 word \<Rightarrow> seedState \<Rightarrow>
   seedState \<times> ((error \<times> Array) + (Array \<times> path \<times> 64 word))" where
  "fillRandom self seed clock st =
     (let st' =
            (if prevSeed st \<noteq> seed \<or> \<not> statSeedSet st \<or> seed \<noteq> - 1
             then \<lparr>statSeed = (if seed = - 1 then clock else seed), prevSeed = seed,
                   statSeedSet = True\<rparr>
             else st)
      in (st',
          case LEGACY_applyUnaryOp_inplace self self False of
            Inl err \<Rightarrow> Inl err
          | Inr (self', p) \<Rightarrow> Inr (self', p, statSeed st')))"

text \<open>A sequence of calls \<open>(seed, clock)\<close> on one Array, threading the statics.\<close>

fun fillRandomCalls :: "Array \<Rightarrow> (64 word \<times> 64 word) list \<Rightarrow> seedState \<Rightarrow> seedState" where
  "fillRandomCalls self [] st = st"
| "fillRandomCalls self ((seed, clock) # calls) st =
     fillRandomCalls self calls (fst (fillRandom self seed clock st))"

section \<open>Map kernels\<close>

subsection \<open>\<open>Array::mapKernelGetPointers\<close> (legacy)\<close>




subsection \<open>\<open>mapping::extractAndCheckExtent\<close> (\<open>cwisemap.hpp\<close>)\<close>






section \<open>\<open>ValueReference<bool, d>\<close>\<close>

datatype device = device_CPU | device_GPU

record ValueReference_bool =
  m_value :: addr
  m_bit :: "16 word"

text \<open>The constructor: the base and \<open>m_bit\<close> are initialised, then \<open>LR_ASSERT\<close> runs.\<close>

definition ValueReference_bool_new :: "addr \<Rightarrow> 16 word \<Rightarrow> error + ValueReference_bool" where
  "ValueReference_bool_new val bit' =
     (if bit' \<ge> 0 \<and> bit' < 512 then Inr \<lparr>m_value = val, m_bit = bit'\<rparr>
      else Inl AssertionFailed)"

text \<open>
  \<open>1ull << m_bit\<close>: a shift of a 64-bit operand by 64 or more is undefined in C++,
  reported as \<open>None\<close>.
\<close>

definition shiftOne :: "16 word \<Rightarrow> 64 word option" where
  "shiftOne b = (if unat b < 64 then Some (push_bit (unat b) 1) else None)"

text \<open>
  The referenced words are a map from addresses to 64-bit words. On the device the
  word is copied to the host and read there (\<open>get\<close>), or updated by the one-thread
  kernel \<open>bitSetKernel\<close> (\<open>set\<close>), with the same mask.
\<close>

definition ValueReference_bool_get ::
  "device \<Rightarrow> ValueReference_bool \<Rightarrow> (addr \<Rightarrow> 64 word) \<Rightarrow> bool option" where
  "ValueReference_bool_get d ref words =
     (case shiftOne (m_bit ref) of
        None \<Rightarrow> None
      | Some bitMask \<Rightarrow>
          (case d of
             device_CPU \<Rightarrow> Some (words (m_value ref) AND bitMask \<noteq> 0)
           | device_GPU \<Rightarrow> let tmp = words (m_value ref) in Some (tmp AND bitMask \<noteq> 0)))"

definition ValueReference_bool_set ::
  "device \<Rightarrow> ValueReference_bool \<Rightarrow> bool \<Rightarrow> (addr \<Rightarrow> 64 word) \<Rightarrow> (addr \<Rightarrow> 64 word) option" where
  "ValueReference_bool_set d ref val words =
     (case shiftOne (m_bit ref) of
        None \<Rightarrow> None
      | Some bitMask \<Rightarrow>
          (case d of
             device_CPU \<Rightarrow>
               if val then Some (words(m_value ref := words (m_value ref) OR bitMask))
               else Some (words(m_value ref := words (m_value ref) AND NOT bitMask))
           | device_GPU \<Rightarrow>
               if val then Some (words(m_value ref := words (m_value ref) OR bitMask))
               else Some (words(m_value ref := words (m_value ref) AND NOT bitMask))))"

section \<open>Result type and device of an expression (\<open>traits.hpp\<close>)\<close>

text \<open>The scalar types for which \<open>traits.hpp\<close> specialises \<open>traits\<close>.\<close>

datatype scalarType =
  T_char | T_bool | T_int8 | T_uint8 | T_int16 | T_uint16 | T_int32 | T_uint32
  | T_int64 | T_uint64 | T_float | T_double

text \<open>
  \<open>std::common_type\<close> of the C++ standard library on these types: a type with
  itself gives that type; otherwise the usual arithmetic conversions apply. The types
  narrower than \<open>int\<close> are promoted to \<open>int\<close> (\<open>int32_t\<close>), and the result is the
  operand that comes later in \<open>int32_t\<close>, \<open>uint32_t\<close>, \<open>int64_t\<close>, \<open>uint64_t\<close>,
  \<open>float\<close>, \<open>double\<close>.
\<close>

fun integralPromotion :: "scalarType \<Rightarrow> scalarType" where
  "integralPromotion T_char = T_int32"
| "integralPromotion T_bool = T_int32"
| "integralPromotion T_int8 = T_int32"
| "integralPromotion T_uint8 = T_int32"
| "integralPromotion T_int16 = T_int32"
| "integralPromotion T_uint16 = T_int32"
| "integralPromotion t = t"

fun conversionRank :: "scalarType \<Rightarrow> nat" where
  "conversionRank T_uint32 = 1"
| "conversionRank T_int64 = 2"
| "conversionRank T_uint64 = 3"
| "conversionRank T_float = 4"
| "conversionRank T_double = 5"
| "conversionRank t = 0"

definition common_type :: "scalarType \<Rightarrow> scalarType \<Rightarrow> scalarType" where
  "common_type l r =
     (if l = r then l
      else if conversionRank (integralPromotion l) < conversionRank (integralPromotion r)
      then integralPromotion r else integralPromotion l)"

text \<open>\<open>ReturnType<LHS, RHS>::RetType\<close>.\<close>

definition ReturnType :: "scalarType \<Rightarrow> scalarType \<Rightarrow> scalarType" where
  "ReturnType lhs rhs = common_type lhs rhs"

text \<open>
  Modelled from the spec: \<open>memory::PromoteDevice\<close> (\<open>memUtils.hpp\<close>): if either
  operand is on the GPU, the result is on the GPU.
\<close>

definition PromoteDevice :: "device \<Rightarrow> device \<Rightarrow> device" where
  "PromoteDevice l r = (if l = device_GPU \<or> r = device_GPU then device_GPU else device_CPU)"

text \<open>
  \<open>PropagateDeviceType<LHS, RHS>::Device\<close>, from \<open>traits<LHS>::Device\<close> and
  \<open>traits<RHS>::Device\<close>.
\<close>

definition PropagateDeviceType :: "device \<Rightarrow> device \<Rightarrow> device" where
  "PropagateDeviceType deviceLHS deviceRHS = PromoteDevice deviceLHS deviceRHS"

text \<open>The element types that are dtypes of the spec's enumeration.\<close>

fun dtypeOf :: "scalarType \<Rightarrow> Datatype option" where
  "dtypeOf T_int32 = Some INT32"
| "dtypeOf T_int64 = Some INT64"
| "dtypeOf T_float = Some FLOAT32"
| "dtypeOf T_double = Some FLOAT64"
| "dtypeOf t = None"

section \<open>Example inputs\<close>

text \<open>The same empty memory in a build with \<open>LIBRAPID_HAS_CUDA\<close>.\<close>

definition exGpuMem :: memory where
  "exGpuMem =
     \<lparr>hasCuda = True, storage = Map.empty, counters = Map.empty, freed = [], nextAddr = 0\<rparr>"


definition exMem :: memory where
  "exMem = \<lparr>hasCuda = False, storage = Map.empty, counters = Map.empty, freed = [],
            nextAddr = 0\<rparr>"

text \<open>A trivial, contiguous Array of the given extent on the host.\<close>

definition exMatrix :: "Extent \<Rightarrow> addr \<Rightarrow> Array" where
  "exMatrix e p =
     \<lparr>m_location = CPU, m_dtype = FLOAT64, m_dataStart = Some p, m_dataOrigin = Some p,
      m_references = Some (p + 1), m_extent = e, m_stride = Stride_fromExtent e,
      m_isScalar = False, m_isChild = False\<rparr>"

text \<open>A scalar Array, as the scalar constructors leave it.\<close>

definition exScalar :: "addr \<Rightarrow> Array" where
  "exScalar p = (exMatrix [1] p)\<lparr>m_isScalar := True\<rparr>"


text \<open>
  A subscript of the \<open>[2, 3]\<close> Array at address 0 (its second row), and the memory
  in which that Array has three owners.
\<close>

definition exChild :: Array where
  "exChild = (exMatrix [2, 3] 0)\<lparr>m_dataStart := Some 3, m_extent := [3], m_isChild := True\<rparr>"

definition exShared :: memory where
  "exShared =
     \<lparr>hasCuda = False,
      storage = [0 \<mapsto> \<lparr>bufLocation = CPU, bufDtype = FLOAT64,
                       bufData = replicate 6 Uninitialised\<rparr>],
      counters = [1 \<mapsto> 3], freed = [], nextAddr = 2\<rparr>"

section \<open>What each entry point returns\<close>

text \<open>
  One lemma per entry point: the fields of the destination and the kernel chosen, for
  every call that returns.
\<close>

lemma constructNew_Inr:
  "constructNew e s t l mem = Inr (arr, mem') \<Longrightarrow>
     m_dtype arr = t \<and> m_location arr = l \<and> m_extent arr = e \<and> m_stride arr = s \<and>
     \<not> m_isScalar arr"
  by (auto simp: constructNew_def Let_def split: if_splits)

lemma applyBinaryOp_Inr:
  assumes "applyBinaryOp a b mem = Inr (res, p, mem')"
  shows "m_dtype res = maxDatatype (m_dtype a) (m_dtype b)"
    and "m_location res = maxAccelerator (m_location a) (m_location b)"
    and "m_isScalar res = (m_isScalar a \<and> m_isScalar b)"
    and "(p = TrivialKernel) =
           ((isTrivial (m_stride a) \<and> isContiguous (m_stride a) \<and>
             isTrivial (m_stride b) \<and> isContiguous (m_stride b)) \<or>
            Stride_eq (m_stride a) (m_stride b))"
    and "p = TrivialKernel \<Longrightarrow> m_stride res = m_stride a"
    and "p = ComplexKernel \<Longrightarrow> m_stride res = Stride_fromExtent (m_extent a)"
    and "m_extent res = m_extent a"
proof -
  from assms obtain res0 where
    c: "Array_fromExtent (m_extent a) (maxDatatype (m_dtype a) (m_dtype b))
          (maxAccelerator (m_location a) (m_location b)) mem = Inr (res0, mem')"
    by (auto simp: applyBinaryOp_def Let_def split: if_splits sum.splits prod.splits)
  note f = constructNew_Inr [OF c [unfolded Array_fromExtent_def]]
  from assms c f show "m_dtype res = maxDatatype (m_dtype a) (m_dtype b)"
    by (auto simp: applyBinaryOp_def Let_def split: if_splits)
  from assms c f show "m_location res = maxAccelerator (m_location a) (m_location b)"
    by (auto simp: applyBinaryOp_def Let_def split: if_splits)
  from assms c f show "m_isScalar res = (m_isScalar a \<and> m_isScalar b)"
    by (auto simp: applyBinaryOp_def Let_def split: if_splits)
  from assms c show "(p = TrivialKernel) =
           ((isTrivial (m_stride a) \<and> isContiguous (m_stride a) \<and>
             isTrivial (m_stride b) \<and> isContiguous (m_stride b)) \<or>
            Stride_eq (m_stride a) (m_stride b))"
    by (auto simp: applyBinaryOp_def Let_def split: if_splits)
  from assms c show "p = TrivialKernel \<Longrightarrow> m_stride res = m_stride a"
    by (auto simp: applyBinaryOp_def Let_def split: if_splits)
  from assms c f show "p = ComplexKernel \<Longrightarrow> m_stride res = Stride_fromExtent (m_extent a)"
    by (auto simp: applyBinaryOp_def Let_def split: if_splits)
  from assms c f show "m_extent res = m_extent a"
    by (auto simp: applyBinaryOp_def Let_def split: if_splits)
qed

lemma LEGACY_applyBinaryOp_Inr:
  assumes "LEGACY_applyBinaryOp a b permitInvalid mem = Inr (res, p, mem')"
  shows "m_dtype res = maxDatatype (m_dtype a) (m_dtype b)"
    and "m_location res = maxAccelerator (m_location a) (m_location b)"
    and "m_isScalar res = (m_isScalar a \<and> m_isScalar b)"
    and "(p = TrivialKernel) =
           ((isTrivial (m_stride a) \<and> isContiguous (m_stride a) \<and>
             isTrivial (m_stride b) \<and> isContiguous (m_stride b)) \<or>
            Stride_eq (m_stride a) (m_stride b))"
    and "p = TrivialKernel \<Longrightarrow>
           m_stride res = (if m_isScalar a then m_stride b else m_stride a)"
    and "p = ComplexKernel \<Longrightarrow>
           m_stride res = Stride_fromExtent (if m_isScalar a then m_extent b else m_extent a)"
    and "m_extent res = (if m_isScalar a then m_extent b else m_extent a)"
proof -
  from assms obtain res0 where
    c: "Array_fromExtent (if m_isScalar a then m_extent b else m_extent a)
          (maxDatatype (m_dtype a) (m_dtype b))
          (maxAccelerator (m_location a) (m_location b)) mem = Inr (res0, mem')"
    by (auto simp: LEGACY_applyBinaryOp_def Let_def split: if_splits sum.splits prod.splits)
  note f = constructNew_Inr [OF c [unfolded Array_fromExtent_def]]
  from assms c f show "m_dtype res = maxDatatype (m_dtype a) (m_dtype b)"
    by (auto simp: LEGACY_applyBinaryOp_def Let_def split: if_splits)
  from assms c f show "m_location res = maxAccelerator (m_location a) (m_location b)"
    by (auto simp: LEGACY_applyBinaryOp_def Let_def split: if_splits)
  from assms c f show "m_isScalar res = (m_isScalar a \<and> m_isScalar b)"
    by (auto simp: LEGACY_applyBinaryOp_def Let_def split: if_splits)
  from assms c show "(p = TrivialKernel) =
           ((isTrivial (m_stride a) \<and> isContiguous (m_stride a) \<and>
             isTrivial (m_stride b) \<and> isContiguous (m_stride b)) \<or>
            Stride_eq (m_stride a) (m_stride b))"
    by (auto simp: LEGACY_applyBinaryOp_def Let_def split: if_splits)
  from assms c show "p = TrivialKernel \<Longrightarrow>
           m_stride res = (if m_isScalar a then m_stride b else m_stride a)"
    by (auto simp: LEGACY_applyBinaryOp_def Let_def split: if_splits)
  from assms c f show "p = ComplexKernel \<Longrightarrow>
           m_stride res = Stride_fromExtent (if m_isScalar a then m_extent b else m_extent a)"
    by (auto simp: LEGACY_applyBinaryOp_def Let_def split: if_splits)
  from assms c f show "m_extent res = (if m_isScalar a then m_extent b else m_extent a)"
    by (auto simp: LEGACY_applyBinaryOp_def Let_def split: if_splits)
qed


lemma LEGACY_applyBinaryOp_inplace_Inr:
  assumes "LEGACY_applyBinaryOp_inplace dst a b permitInvalid = Inr (dst', p)"
  shows "m_isScalar dst' = (if m_isScalar a \<and> m_isScalar b then True else m_isScalar dst)"
    and "(p = TrivialKernel) =
           ((isTrivial (m_stride a) \<and> isContiguous (m_stride a) \<and>
             isTrivial (m_stride b) \<and> isContiguous (m_stride b)) \<or>
            Stride_eq (m_stride a) (m_stride b))"
    and "p = TrivialKernel \<Longrightarrow>
           m_stride dst' = (if m_isScalar a then m_stride b else m_stride a)"
    and "p = ComplexKernel \<Longrightarrow> m_stride dst' = m_stride dst"
  using assms
  by (auto simp: LEGACY_applyBinaryOp_inplace_def Let_def split: if_splits)



lemma Stride_fromExtent_flags [simp]:
  "isTrivial (Stride_fromExtent e)" "isContiguous (Stride_fromExtent e)"
  by (simp_all add: Stride_fromExtent_def)



section \<open>The operand shape check of the binary entry points\<close>



text \<open>
  The in-place entry point of the current header compares the extents before anything
  else and has no exemption for a scalar operand.
\<close>

lemma applyBinaryOp_inplace_rejects_scalar:
  "applyBinaryOp_inplace (exScalar 0) (exMatrix [2, 3] 2) (exMatrix [2, 3] 4)
     = Inl (ShapeMismatch, exMatrix [2, 3] 4)"
  by (simp add: applyBinaryOp_inplace_def exScalar_def exMatrix_def)


section \<open>Type and device of a fresh result\<close>

text \<open>
  The returning entry points return an Array whenever the operand check passes and the
  device of the result is available.
\<close>

lemma applyBinaryOp_returns:
  assumes "m_isScalar a \<or> m_isScalar b \<or> m_extent a = m_extent b"
    and "hasCuda mem \<or> m_location a \<noteq> GPU \<and> m_location b \<noteq> GPU"
  shows "\<not> isl (applyBinaryOp a b mem)"
    and "\<not> isl (LEGACY_applyBinaryOp a b permitInvalid mem)"
proof -
  have "maxAccelerator (m_location a) (m_location b) = GPU \<Longrightarrow> hasCuda mem"
    using assms(2) by (auto simp: maxAccelerator_def split: if_splits)
  then have c: "\<not> isl (constructNew e s (maxDatatype (m_dtype a) (m_dtype b))
                      (maxAccelerator (m_location a) (m_location b)) mem)" for e s
    by (auto simp: constructNew_def Let_def)
  from assms(1) c [of "m_extent a" "Stride_fromExtent (m_extent a)"]
  show "\<not> isl (applyBinaryOp a b mem)"
    by (auto simp: applyBinaryOp_def Array_fromExtent_def Let_def
        split: sum.splits prod.splits)
  from assms(1) c [of "m_extent a" "Stride_fromExtent (m_extent a)"]
    c [of "m_extent b" "Stride_fromExtent (m_extent b)"]
  show "\<not> isl (LEGACY_applyBinaryOp a b permitInvalid mem)"
    by (auto simp: LEGACY_applyBinaryOp_def Array_fromExtent_def Let_def
        split: sum.splits prod.splits)
qed

text \<open>
  On the element types that are dtypes of the spec, \<open>std::common_type\<close> is the dtype
  with the larger ordinal.
\<close>

lemma ReturnType_promotes:
  "dtypeOf lhs = Some dl \<Longrightarrow> dtypeOf rhs = Some dr \<Longrightarrow>
     dtypeOf (ReturnType lhs rhs) = Some (maxDatatype dl dr)"
  by (cases lhs; cases rhs) (auto simp: ReturnType_def common_type_def maxDatatype_def)

text \<open>
  C3. Every binary element-wise operation that returns a fresh Array gives it the
  promotion of the operands' dtypes, the one with the larger ordinal, and the device
  \<open>GPU\<close> if either operand is on the GPU, otherwise \<open>CPU\<close> (for operands whose
  location is a device, \<open>CPU\<close> or \<open>GPU\<close>). Both entry points do return an Array when
  the operand check passes and the device is available. The expression templates
  agree: \<open>ReturnType\<close> is the dtype with the larger ordinal on the dtypes of the spec,
  and \<open>PropagateDeviceType\<close> is the GPU exactly when one side is on the GPU.
\<close>

theorem applyBinaryOp_promotion:
  "(applyBinaryOp a b mem = Inr (res, p, mem') \<or>
    LEGACY_applyBinaryOp a b permitInvalid mem = Inr (res, p, mem') \<longrightarrow>
      m_dtype res = (if datatypeOrdinal (m_dtype a) < datatypeOrdinal (m_dtype b)
                     then m_dtype b else m_dtype a) \<and>
      datatypeOrdinal (m_dtype res) =
        max (datatypeOrdinal (m_dtype a)) (datatypeOrdinal (m_dtype b)) \<and>
      (m_location a = GPU \<or> m_location b = GPU \<longrightarrow> m_location res = GPU) \<and>
      (m_location a \<noteq> GPU \<and> m_location b \<noteq> GPU \<and>
       (m_location a = CPU \<or> m_location b = CPU) \<longrightarrow> m_location res = CPU)) \<and>
   ((m_isScalar a \<or> m_isScalar b \<or> m_extent a = m_extent b) \<and>
    (hasCuda mem \<or> m_location a \<noteq> GPU \<and> m_location b \<noteq> GPU) \<longrightarrow>
      \<not> isl (applyBinaryOp a b mem) \<and>
      \<not> isl (LEGACY_applyBinaryOp a b permitInvalid mem)) \<and>
   (dtypeOf lhs = Some dl \<and> dtypeOf rhs = Some dr \<longrightarrow>
      dtypeOf (ReturnType lhs rhs) = Some (maxDatatype dl dr) \<and>
      datatypeOrdinal (maxDatatype dl dr) = max (datatypeOrdinal dl) (datatypeOrdinal dr)) \<and>
   (PropagateDeviceType deviceLHS deviceRHS = device_GPU) =
     (deviceLHS = device_GPU \<or> deviceRHS = device_GPU) \<and>
   (PropagateDeviceType deviceLHS deviceRHS = device_CPU) =
     (deviceLHS = device_CPU \<and> deviceRHS = device_CPU)"
proof -
  have 1: "m_dtype res = (if datatypeOrdinal (m_dtype a) < datatypeOrdinal (m_dtype b)
                     then m_dtype b else m_dtype a) \<and>
      datatypeOrdinal (m_dtype res) =
        max (datatypeOrdinal (m_dtype a)) (datatypeOrdinal (m_dtype b)) \<and>
      (m_location a = GPU \<or> m_location b = GPU \<longrightarrow> m_location res = GPU) \<and>
      (m_location a \<noteq> GPU \<and> m_location b \<noteq> GPU \<and>
       (m_location a = CPU \<or> m_location b = CPU) \<longrightarrow> m_location res = CPU)"
    if r: "applyBinaryOp a b mem = Inr (res, p, mem') \<or>
          LEGACY_applyBinaryOp a b permitInvalid mem = Inr (res, p, mem')"
  proof -
    from r have t: "m_dtype res = maxDatatype (m_dtype a) (m_dtype b)"
      and l: "m_location res = maxAccelerator (m_location a) (m_location b)"
      by (auto dest: applyBinaryOp_Inr(1,2) LEGACY_applyBinaryOp_Inr(1,2))
    have "m_location a = GPU \<or> m_location b = GPU \<longrightarrow> m_location res = GPU"
      unfolding l maxAccelerator_def by (cases "m_location a"; cases "m_location b") simp_all
    moreover have "m_location a \<noteq> GPU \<and> m_location b \<noteq> GPU \<and>
        (m_location a = CPU \<or> m_location b = CPU) \<longrightarrow> m_location res = CPU"
      unfolding l maxAccelerator_def by (cases "m_location a"; cases "m_location b") simp_all
    ultimately show ?thesis
      unfolding t maxDatatype_def by simp
  qed
  have 2: "\<not> isl (applyBinaryOp a b mem) \<and>
      \<not> isl (LEGACY_applyBinaryOp a b permitInvalid mem)"
    if "(m_isScalar a \<or> m_isScalar b \<or> m_extent a = m_extent b) \<and>
        (hasCuda mem \<or> m_location a \<noteq> GPU \<and> m_location b \<noteq> GPU)"
    using that applyBinaryOp_returns(1) [of a b mem]
      applyBinaryOp_returns(2) [of a b mem permitInvalid] by blast
  have 3: "dtypeOf (ReturnType lhs rhs) = Some (maxDatatype dl dr) \<and>
      datatypeOrdinal (maxDatatype dl dr) = max (datatypeOrdinal dl) (datatypeOrdinal dr)"
    if "dtypeOf lhs = Some dl \<and> dtypeOf rhs = Some dr"
    using that ReturnType_promotes [of lhs dl rhs dr] by (simp add: maxDatatype_def)
  have 4: "(PropagateDeviceType deviceLHS deviceRHS = device_GPU) =
       (deviceLHS = device_GPU \<or> deviceRHS = device_GPU) \<and>
     (PropagateDeviceType deviceLHS deviceRHS = device_CPU) =
       (deviceLHS = device_CPU \<and> deviceRHS = device_CPU)"
    by (cases deviceLHS; cases deviceRHS) (simp_all add: PropagateDeviceType_def PromoteDevice_def)
  from 1 2 3 4 show ?thesis by blast
qed

theorem applyBinaryOp_promotion_witness:
  "\<not> isl (applyBinaryOp ((exMatrix [2, 3] 0)\<lparr>m_dtype := INT64\<rparr>)
            ((exMatrix [2, 3] 2)\<lparr>m_location := GPU\<rparr>) exGpuMem) \<and>
   m_dtype (fst (projr (applyBinaryOp ((exMatrix [2, 3] 0)\<lparr>m_dtype := INT64\<rparr>)
                    ((exMatrix [2, 3] 2)\<lparr>m_location := GPU\<rparr>) exGpuMem))) = FLOAT64 \<and>
   m_location (fst (projr (applyBinaryOp ((exMatrix [2, 3] 0)\<lparr>m_dtype := INT64\<rparr>)
                    ((exMatrix [2, 3] 2)\<lparr>m_location := GPU\<rparr>) exGpuMem))) = GPU \<and>
   \<not> isl (LEGACY_applyBinaryOp ((exScalar 0)\<lparr>m_dtype := CFLOAT32\<rparr>)
            ((exMatrix [2, 3] 2)\<lparr>m_dtype := INT32\<rparr>) False exMem) \<and>
   m_dtype (fst (projr (LEGACY_applyBinaryOp ((exScalar 0)\<lparr>m_dtype := CFLOAT32\<rparr>)
                    ((exMatrix [2, 3] 2)\<lparr>m_dtype := INT32\<rparr>) False exMem))) = CFLOAT32 \<and>
   m_location (fst (projr (LEGACY_applyBinaryOp ((exScalar 0)\<lparr>m_dtype := CFLOAT32\<rparr>)
                    ((exMatrix [2, 3] 2)\<lparr>m_dtype := INT32\<rparr>) False exMem))) = CPU \<and>
   ReturnType T_int64 T_float = T_float \<and>
   PropagateDeviceType device_CPU device_GPU = device_GPU"
proof -
  let ?a = "(exMatrix [2, 3] 0)\<lparr>m_dtype := INT64\<rparr>"
  let ?b = "(exMatrix [2, 3] 2)\<lparr>m_location := GPU\<rparr>"
  let ?x = "applyBinaryOp ?a ?b exGpuMem"
  let ?c = "(exScalar 0)\<lparr>m_dtype := CFLOAT32\<rparr>"
  let ?d = "(exMatrix [2, 3] 2)\<lparr>m_dtype := INT32\<rparr>"
  let ?y = "LEGACY_applyBinaryOp ?c ?d False exMem"
  note t1 = applyBinaryOp_promotion [where a = ?a and b = ?b and mem = exGpuMem
      and permitInvalid = False and res = "fst (projr ?x)" and p = "fst (snd (projr ?x))"
      and mem' = "snd (snd (projr ?x))" and lhs = T_int64 and rhs = T_float
      and dl = INT64 and dr = FLOAT32 and deviceLHS = device_CPU and deviceRHS = device_GPU]
  note t2 = applyBinaryOp_promotion [where a = ?c and b = ?d and mem = exMem
      and permitInvalid = False and res = "fst (projr ?y)" and p = "fst (snd (projr ?y))"
      and mem' = "snd (snd (projr ?y))"]
  have x: "\<not> isl ?x"
    using t1 by (simp add: exMatrix_def exGpuMem_def)
  have y: "\<not> isl ?y"
    using t2 by (simp add: exMatrix_def exScalar_def exMem_def)
  from x have rx: "?x = Inr (fst (projr ?x), fst (snd (projr ?x)), snd (snd (projr ?x)))"
    by (cases ?x) simp_all
  from y have ry: "?y = Inr (fst (projr ?y), fst (snd (projr ?y)), snd (snd (projr ?y)))"
    by (cases ?y) simp_all
  have "m_dtype (fst (projr ?x)) = FLOAT64 \<and> m_location (fst (projr ?x)) = GPU"
    using t1 rx by (simp add: exMatrix_def)
  moreover have "m_dtype (fst (projr ?y)) = CFLOAT32 \<and> m_location (fst (projr ?y)) = CPU"
    using t2 ry by (simp add: exMatrix_def exScalar_def)
  moreover have "ReturnType T_int64 T_float = T_float"
    by (simp add: ReturnType_def common_type_def)
  moreover have "PropagateDeviceType device_CPU device_GPU = device_GPU"
    using t1 by simp
  ultimately show ?thesis using x y by simp
qed

section \<open>Choice of the kernel\<close>




section \<open>Stride of the destination\<close>

text \<open>
  In the legacy header the trivial path gives the destination the stride of \<open>srcB\<close>
  when \<open>srcA\<close> is a scalar and of \<open>srcA\<close> otherwise, and the strided path leaves a
  fresh destination trivial and contiguous, as it does in the current header.
\<close>

lemma LEGACY_binary_stride:
  "(LEGACY_applyBinaryOp a b permitInvalid mem = Inr (res, TrivialKernel, mem') \<longrightarrow>
      m_stride res = (if m_isScalar a then m_stride b else m_stride a)) \<and>
   (LEGACY_applyBinaryOp_inplace dst a b permitInvalid = Inr (dst', TrivialKernel) \<longrightarrow>
      m_stride dst' = (if m_isScalar a then m_stride b else m_stride a)) \<and>
   (LEGACY_applyBinaryOp a b permitInvalid mem = Inr (res, ComplexKernel, mem') \<longrightarrow>
      trivialAndContiguous (m_stride res)) \<and>
   (applyBinaryOp a b mem = Inr (res, ComplexKernel, mem') \<longrightarrow>
      trivialAndContiguous (m_stride res))"
  using LEGACY_applyBinaryOp_Inr(5,6) [of a b permitInvalid mem res _ mem']
    LEGACY_applyBinaryOp_inplace_Inr(3) [of dst a b permitInvalid dst' TrivialKernel]
    applyBinaryOp_Inr(6) [of a b mem res ComplexKernel mem']
  by (simp add: trivialAndContiguous_def)

text \<open>
  C4 fails on the current header: \<open>res.m_stride = a.m_stride\<close> has no case for a
  scalar \<open>a\<close>. A scalar and a \<open>[2, 3]\<close> Array go down the trivial path and the result
  gets the extent \<open>[1]\<close> and the stride of the scalar, where the legacy header gives
  it the extent and the stride of the \<open>[2, 3]\<close> operand.
\<close>

theorem applyBinaryOp_scalar_lhs_stride:
  "m_isScalar (exScalar 0) \<and> \<not> m_isScalar (exMatrix [2, 3] 2) \<and>
   \<not> isl (applyBinaryOp (exScalar 0) (exMatrix [2, 3] 2) exMem) \<and>
   fst (snd (projr (applyBinaryOp (exScalar 0) (exMatrix [2, 3] 2) exMem))) = TrivialKernel \<and>
   m_stride (fst (projr (applyBinaryOp (exScalar 0) (exMatrix [2, 3] 2) exMem)))
     = m_stride (exScalar 0) \<and>
   m_stride (exScalar 0) \<noteq> m_stride (exMatrix [2, 3] 2) \<and>
   m_extent (fst (projr (applyBinaryOp (exScalar 0) (exMatrix [2, 3] 2) exMem))) = [1] \<and>
   m_stride (fst (projr (LEGACY_applyBinaryOp (exScalar 0) (exMatrix [2, 3] 2) False exMem)))
     = m_stride (exMatrix [2, 3] 2) \<and>
   m_extent (fst (projr (LEGACY_applyBinaryOp (exScalar 0) (exMatrix [2, 3] 2) False exMem)))
     = [2, 3]"
  by (simp add: applyBinaryOp_def LEGACY_applyBinaryOp_def Array_fromExtent_def
      constructNew_def exMatrix_def exScalar_def exMem_def maxAccelerator_def
      Stride_fromExtent_def Let_def)

section \<open>The scalar flag of the destination\<close>

text \<open>
  A fresh result is a scalar exactly when both operands are.
\<close>

lemma returning_binary_isScalar:
  "applyBinaryOp a b mem = Inr (res, p, mem') \<or>
   LEGACY_applyBinaryOp a b permitInvalid mem = Inr (res, p, mem') \<Longrightarrow>
     m_isScalar res = (m_isScalar a \<and> m_isScalar b)"
  by (auto dest: applyBinaryOp_Inr(3) LEGACY_applyBinaryOp_Inr(3))

text \<open>
  C6 fails on the in-place entry points: \<open>m_isScalar\<close> is set when both operands are
  scalars and never cleared. A destination that was a scalar stays one after two
  one-element Arrays that are no scalars were combined into it; the unary dispatcher
  assigns the flag and clears it on the same destination.
\<close>

theorem applyBinaryOp_inplace_keeps_isScalar:
  "\<not> m_isScalar (exMatrix [1] 0) \<and> \<not> m_isScalar (exMatrix [1] 2) \<and>
   LEGACY_applyBinaryOp_inplace (exScalar 4) (exMatrix [1] 0) (exMatrix [1] 2) False
     = Inr (exScalar 4, TrivialKernel) \<and>
   applyBinaryOp_inplace (exMatrix [1] 0) (exMatrix [1] 2) (exScalar 4)
     = Inr (exScalar 4, TrivialKernel) \<and>
   m_isScalar (exScalar 4) \<and>
   LEGACY_applyUnaryOp_inplace (exScalar 4) (exMatrix [1] 0) False
     = Inr (exMatrix [1] 4, TrivialKernel) \<and>
   \<not> m_isScalar (exMatrix [1] 4)"
  by (simp add: LEGACY_applyBinaryOp_inplace_def applyBinaryOp_inplace_def
      LEGACY_applyUnaryOp_inplace_def exMatrix_def exScalar_def)

section \<open>Shared storage is freed once\<close>

text \<open>
  While other owners remain, \<open>decrement\<close> only lowers the counter; the owner that
  brings it to zero frees the storage and deletes the counter.
\<close>

lemma counter_nonzero:
  "0 < n \<Longrightarrow> n < 2 ^ 64 \<Longrightarrow> (of_nat n :: 64 word) \<noteq> 0"
  by (simp add: word_of_nat_eq_0_iff nat_dvd_not_less)

lemma sharing_Cons:
  "sharing r raw (c # cs) =
     (m_references c = Some r \<and> (m_dataOrigin c, m_dtype c, m_location c) = raw \<and>
      sharing r raw cs)"
  by (simp add: sharing_def)

lemma decrement_not_last:
  "m_references c = Some r \<Longrightarrow> counters mem r = Some (of_nat (Suc n)) \<Longrightarrow>
   0 < n \<Longrightarrow> n < 2 ^ 64 \<Longrightarrow>
     decrement c mem = Some (mem\<lparr>counters := (counters mem)(r \<mapsto> of_nat n)\<rparr>) \<and>
     LEGACY_decrement createRaw c mem
       = Some (mem\<lparr>counters := (counters mem)(r \<mapsto> of_nat n)\<rparr>)"
  using counter_nonzero [of n] by (simp add: decrement_def LEGACY_decrement_def)

lemma decrement_last:
  "m_references c = Some r \<Longrightarrow> counters mem r = Some 1 \<Longrightarrow>
     decrement c mem
       = Some (freeStorage (m_dataOrigin c, m_dtype c, m_location c) mem
                 \<lparr>counters := (counters mem)(r := None)\<rparr>) \<and>
     LEGACY_decrement createRaw c mem
       = Some (freeStorage (createRaw c) mem\<lparr>counters := (counters mem)(r := None)\<rparr>)"
  by (simp add: decrement_def LEGACY_decrement_def)

lemma dropAll_prefix:
  "sharing r raw ds \<Longrightarrow> counters mem r = Some (of_nat k) \<Longrightarrow> length ds < k \<Longrightarrow>
   k < 2 ^ 64 \<Longrightarrow>
     dropAll ds mem = Some (mem\<lparr>counters := (counters mem)(r \<mapsto> of_nat (k - length ds))\<rparr>)"
proof (induction ds arbitrary: mem k)
  case Nil
  then have "(counters mem)(r \<mapsto> of_nat k) = counters mem"
    by (simp add: fun_upd_idem)
  then show ?case by simp
next
  case (Cons c ds)
  from Cons.prems obtain j where k: "k = Suc j" and j: "0 < j" "j < 2 ^ 64" "length ds < j"
    by (cases k) auto
  from Cons.prems have c: "m_references c = Some r" and s: "sharing r raw ds"
    by (simp_all add: sharing_Cons)
  let ?mem = "mem\<lparr>counters := (counters mem)(r \<mapsto> of_nat j)\<rparr>"
  have d: "decrement c mem = Some ?mem"
    using decrement_not_last [OF c _ j(1,2)] Cons.prems(2) k by simp
  have kk: "k - length (c # ds) = j - length ds"
    using k by simp
  have "dropAll (c # ds) mem = dropAll ds ?mem"
    using d by simp
  also have "\<dots> = Some (?mem\<lparr>counters := (counters ?mem)(r \<mapsto> of_nat (j - length ds))\<rparr>)"
    by (rule Cons.IH [OF s _ j(3,2)]) simp
  also have "?mem\<lparr>counters := (counters ?mem)(r \<mapsto> of_nat (j - length ds))\<rparr>
               = mem\<lparr>counters := (counters mem)(r \<mapsto> of_nat (j - length ds))\<rparr>"
    by simp
  finally show ?case
    unfolding kk .
qed

lemma LEGACY_dropAll_prefix:
  "sharing r raw ds \<Longrightarrow> counters mem r = Some (of_nat k) \<Longrightarrow> length ds < k \<Longrightarrow>
   k < 2 ^ 64 \<Longrightarrow>
     LEGACY_dropAll createRaw ds mem
       = Some (mem\<lparr>counters := (counters mem)(r \<mapsto> of_nat (k - length ds))\<rparr>)"
proof (induction ds arbitrary: mem k)
  case Nil
  then have "(counters mem)(r \<mapsto> of_nat k) = counters mem"
    by (simp add: fun_upd_idem)
  then show ?case by simp
next
  case (Cons c ds)
  from Cons.prems obtain j where k: "k = Suc j" and j: "0 < j" "j < 2 ^ 64" "length ds < j"
    by (cases k) auto
  from Cons.prems have c: "m_references c = Some r" and s: "sharing r raw ds"
    by (simp_all add: sharing_Cons)
  let ?mem = "mem\<lparr>counters := (counters mem)(r \<mapsto> of_nat j)\<rparr>"
  have d: "LEGACY_decrement createRaw c mem = Some ?mem"
    using decrement_not_last [OF c _ j(1,2)] Cons.prems(2) k by simp
  have kk: "k - length (c # ds) = j - length ds"
    using k by simp
  have "LEGACY_dropAll createRaw (c # ds) mem = LEGACY_dropAll createRaw ds ?mem"
    using d by simp
  also have "\<dots> = Some (?mem\<lparr>counters := (counters ?mem)(r \<mapsto> of_nat (j - length ds))\<rparr>)"
    by (rule Cons.IH [OF s _ j(3,2)]) simp
  also have "?mem\<lparr>counters := (counters ?mem)(r \<mapsto> of_nat (j - length ds))\<rparr>
               = mem\<lparr>counters := (counters mem)(r \<mapsto> of_nat (j - length ds))\<rparr>"
    by simp
  finally show ?case
    unfolding kk .
qed

lemma dropAll_append:
  "dropAll (xs @ ys) mem = (case dropAll xs mem of None \<Rightarrow> None | Some m \<Rightarrow> dropAll ys m)"
  by (induction xs arbitrary: mem) (auto split: option.splits)

lemma LEGACY_dropAll_append:
  "LEGACY_dropAll createRaw (xs @ ys) mem
     = (case LEGACY_dropAll createRaw xs mem of
          None \<Rightarrow> None
        | Some m \<Rightarrow> LEGACY_dropAll createRaw ys m)"
  by (induction xs arbitrary: mem) (auto split: option.splits)

lemma freeStorage_counters:
  "freeStorage raw (mem\<lparr>counters := f\<rparr>) = (freeStorage raw mem)\<lparr>counters := f\<rparr>"
  by (cases "fst raw") (simp_all add: freeStorage_def)

lemma dropAll_all:
  assumes "sharing r raw cs" "cs \<noteq> []" "length cs < 2 ^ 64"
    "counters mem r = Some (of_nat (length cs))"
  shows "dropAll cs mem = Some (freeStorage raw mem\<lparr>counters := (counters mem)(r := None)\<rparr>)"
    and "LEGACY_dropAll createRaw cs mem
           = Some (freeStorage (createRaw (last cs)) mem
                     \<lparr>counters := (counters mem)(r := None)\<rparr>)"
proof -
  from assms(2) obtain ds c where cs: "cs = ds @ [c]"
    by (cases cs rule: rev_cases) auto
  from assms(1) cs have s: "sharing r raw ds" and c: "m_references c = Some r"
    "(m_dataOrigin c, m_dtype c, m_location c) = raw"
    by (simp_all add: sharing_def)
  let ?mem = "mem\<lparr>counters := (counters mem)(r \<mapsto> of_nat (length cs - length ds))\<rparr>"
  have l: "length ds < length cs" using cs by simp
  have p: "dropAll ds mem = Some ?mem"
    by (rule dropAll_prefix [OF s assms(4) l assms(3)])
  have q: "LEGACY_dropAll createRaw ds mem = Some ?mem"
    by (rule LEGACY_dropAll_prefix [OF s assms(4) l assms(3)])
  have one: "counters ?mem r = Some 1" using cs by simp
  from decrement_last [OF c(1) one, of createRaw] c(2) p q cs
  show "dropAll cs mem = Some (freeStorage raw mem\<lparr>counters := (counters mem)(r := None)\<rparr>)"
    and "LEGACY_dropAll createRaw cs mem
           = Some (freeStorage (createRaw (last cs)) mem
                     \<lparr>counters := (counters mem)(r := None)\<rparr>)"
    by (simp_all add: dropAll_append LEGACY_dropAll_append freeStorage_counters)
qed

lemma sharing_take: "sharing r raw cs \<Longrightarrow> sharing r raw (take n cs)"
  by (auto simp: sharing_def list_all_iff dest: in_set_takeD)

lemma referenceCopy_shares:
  "m_references a = Some r \<Longrightarrow> counters mem r = Some w \<Longrightarrow>
     referenceCopy a mem = Some (a, mem\<lparr>counters := (counters mem)(r \<mapsto> w + 1)\<rparr>)"
  by (simp add: referenceCopy_def increment_def)

lemma makeAliases_counts:
  "m_references a = Some r \<Longrightarrow> counters mem r = Some w \<Longrightarrow>
     makeAliases k a mem
       = Some (replicate k a, mem\<lparr>counters := (counters mem)(r \<mapsto> w + of_nat k)\<rparr>)"
proof (induction k arbitrary: mem w)
  case 0
  then have "(counters mem)(r \<mapsto> w) = counters mem"
    by (simp add: fun_upd_idem)
  then show ?case by simp
next
  case (Suc k)
  let ?mem = "mem\<lparr>counters := (counters mem)(r \<mapsto> w + 1)\<rparr>"
  have e: "?mem\<lparr>counters := (counters ?mem)(r \<mapsto> w + 1 + of_nat k)\<rparr>
             = mem\<lparr>counters := (counters mem)(r \<mapsto> w + of_nat (Suc k))\<rparr>"
    by (simp add: ac_simps)
  have "makeAliases (Suc k) a mem
          = map_option (\<lambda>(cs, mem''). (a # cs, mem'')) (makeAliases k a ?mem)"
    using referenceCopy_shares [OF Suc.prems] by simp
  also have "makeAliases k a ?mem
          = Some (replicate k a, ?mem\<lparr>counters := (counters ?mem)(r \<mapsto> w + 1 + of_nat k)\<rparr>)"
    by (rule Suc.IH [OF Suc.prems(1)]) simp
  finally show ?case
    unfolding e by (simp only: replicate_Suc option.map prod.case)
qed

text \<open>
  The current header frees shared storage once. Let \<open>cs\<close> be the Arrays that share
  one storage, in the order they are dropped: reference copies, assignment targets or
  subscripts, all naming the counter \<open>r\<close> and the origin \<open>raw\<close>, with the counter
  equal to their number. Dropping all of them succeeds, calls the deallocator exactly
  once, on the origin, and deletes the counter. After any fewer drops nothing has been
  freed and the storage is unchanged, so every Array still alive sees live storage.
  \<open>cs\<close> is any list, so the order is free. The legacy header makes its one call on
  \<open>createRaw()\<close> of the Array dropped last.
\<close>

theorem refcount_single_free:
  assumes "sharing r raw cs" and "cs \<noteq> []" and "length cs < 2 ^ 64"
    and "counters mem r = Some (of_nat (length cs))"
  shows "dropAll cs mem
           = Some (freeStorage raw mem\<lparr>counters := (counters mem)(r := None)\<rparr>) \<and>
         map_option freed (dropAll cs mem) = Some (freed mem @ [raw]) \<and>
         LEGACY_dropAll createRaw cs mem
           = Some (freeStorage (createRaw (last cs)) mem
                     \<lparr>counters := (counters mem)(r := None)\<rparr>) \<and>
         map_option freed (LEGACY_dropAll createRaw cs mem)
           = Some (freed mem @ [createRaw (last cs)]) \<and>
         (\<forall>n<length cs.
            dropAll (take n cs) mem
              = Some (mem\<lparr>counters := (counters mem)(r \<mapsto> of_nat (length cs - n))\<rparr>) \<and>
            LEGACY_dropAll createRaw (take n cs) mem
              = Some (mem\<lparr>counters := (counters mem)(r \<mapsto> of_nat (length cs - n))\<rparr>))"
proof -
  note all = dropAll_all(1) [OF assms] dropAll_all(2) [OF assms, of createRaw]
  have "dropAll (take n cs) mem
          = Some (mem\<lparr>counters := (counters mem)(r \<mapsto> of_nat (length cs - n))\<rparr>) \<and>
        LEGACY_dropAll createRaw (take n cs) mem
          = Some (mem\<lparr>counters := (counters mem)(r \<mapsto> of_nat (length cs - n))\<rparr>)"
    if n: "n < length cs" for n
    using dropAll_prefix [OF sharing_take [OF assms(1), of n] assms(4) _ assms(3)]
      LEGACY_dropAll_prefix [OF sharing_take [OF assms(1), of n] assms(4) _ assms(3),
        of createRaw] n
    by simp
  with all show ?thesis
    by (simp add: freeStorage_def)
qed

theorem refcount_single_free_witness:
  "Array_fromExtent [2, 3] FLOAT64 CPU exMem
     = Inr (exMatrix [2, 3] 0, exShared\<lparr>counters := [1 \<mapsto> 1]\<rparr>) \<and>
   makeAliases 2 (exMatrix [2, 3] 0) (exShared\<lparr>counters := [1 \<mapsto> 1]\<rparr>)
     = Some ([exMatrix [2, 3] 0, exMatrix [2, 3] 0], exShared) \<and>
   map_option freed (dropAll [exMatrix [2, 3] 0, exChild, exMatrix [2, 3] 0] exShared)
     = Some [(Some 0, FLOAT64, CPU)] \<and>
   map_option storage (dropAll [exMatrix [2, 3] 0, exChild, exMatrix [2, 3] 0] exShared)
     = Some Map.empty \<and>
   map_option freed (dropAll [exMatrix [2, 3] 0, exChild] exShared) = Some [] \<and>
   map_option storage (dropAll [exMatrix [2, 3] 0, exChild] exShared)
     = Some (storage exShared) \<and>
   map_option freed
     (LEGACY_dropAll LEGACY_createRaw
        [exMatrix [2, 3] 0, exChild, exMatrix [2, 3] 0] exShared)
     = Some [(Some 0, FLOAT64, CPU)]"
proof -
  let ?cs = "[exMatrix [2, 3] 0, exChild, exMatrix [2, 3] 0]"
  have s: "sharing 1 (Some 0, FLOAT64, CPU) ?cs"
    by (simp add: sharing_def exChild_def exMatrix_def)
  have c: "counters exShared 1 = Some (of_nat (length ?cs))"
    by (simp add: exShared_def)
  have a: "Array_fromExtent [2, 3] FLOAT64 CPU exMem
     = Inr (exMatrix [2, 3] 0, exShared\<lparr>counters := [1 \<mapsto> 1]\<rparr>)"
    by (simp add: Array_fromExtent_def constructNew_def exMem_def exMatrix_def exShared_def
        Extent_size_def Let_def)
  have m: "makeAliases 2 (exMatrix [2, 3] 0) (exShared\<lparr>counters := [1 \<mapsto> 1]\<rparr>)
     = Some ([exMatrix [2, 3] 0, exMatrix [2, 3] 0], exShared)"
    using makeAliases_counts [of "exMatrix [2, 3] 0" 1 "exShared\<lparr>counters := [1 \<mapsto> 1]\<rparr>" 1 2]
    by (simp add: exMatrix_def exShared_def numeral_2_eq_2)
  have ne: "?cs \<noteq> []" and len: "length ?cs < 2 ^ 64" and two: "2 < length ?cs"
    and tk: "take 2 ?cs = [exMatrix [2, 3] 0, exChild]"
    by simp_all
  note t = refcount_single_free [OF s ne len c, of LEGACY_createRaw]
  note f = t [THEN conjunct1]
  note l = t [THEN conjunct2, THEN conjunct2, THEN conjunct1]
  note q = t [THEN conjunct2, THEN conjunct2, THEN conjunct2, THEN conjunct2, THEN spec,
      THEN mp, OF two, THEN conjunct1, unfolded tk]
  have "map_option storage (dropAll ?cs exShared) = Some Map.empty"
    unfolding f by (simp add: freeStorage_def exShared_def)
  moreover have "map_option freed (dropAll ?cs exShared) = Some [(Some 0, FLOAT64, CPU)]"
    unfolding f by (simp add: freeStorage_def exShared_def)
  moreover have "map_option freed
     (LEGACY_dropAll LEGACY_createRaw ?cs exShared)
          = Some [(Some 0, FLOAT64, CPU)]"
    unfolding l by (simp add: freeStorage_def exShared_def exMatrix_def LEGACY_createRaw_def)
  moreover have "map_option freed (dropAll [exMatrix [2, 3] 0, exChild] exShared) = Some []"
    unfolding q by (simp add: exShared_def)
  moreover have "map_option storage (dropAll [exMatrix [2, 3] 0, exChild] exShared)
     = Some (storage exShared)"
    unfolding q by simp
  ultimately show ?thesis
    using a m by simp
qed

text \<open>
  C2 fails on the legacy header: \<open>decrement\<close> hands \<open>createRaw()\<close>, the start of the
  view, to the deallocator, where the current header hands it \<open>m_dataOrigin\<close>. The
  \<open>[2, 3]\<close> Array at address 0 has three owners, two reference copies and the
  subscript of its second row, which starts at address 3. When the subscript is dropped
  last, the legacy chain makes its one call on address 3 and the block at address 0
  stays allocated; the current header frees address 0 on the same drops.
\<close>

theorem LEGACY_decrement_frees_view_start:
  "m_references exChild = m_references (exMatrix [2, 3] 0) \<and>
   m_dataOrigin exChild = m_dataOrigin (exMatrix [2, 3] 0) \<and>
   m_dataOrigin exChild = Some 0 \<and> m_dataStart exChild = Some 3 \<and>
   counters exShared 1 = Some 3 \<and>
   map_option freed
     (LEGACY_dropAll LEGACY_createRaw [exMatrix [2, 3] 0, exMatrix [2, 3] 0, exChild] exShared)
     = Some [(Some 3, FLOAT64, CPU)] \<and>
   map_option (\<lambda>m. dom (storage m))
     (LEGACY_dropAll LEGACY_createRaw [exMatrix [2, 3] 0, exMatrix [2, 3] 0, exChild] exShared)
     = Some {0} \<and>
   map_option freed (dropAll [exMatrix [2, 3] 0, exMatrix [2, 3] 0, exChild] exShared)
     = Some [(Some 0, FLOAT64, CPU)] \<and>
   map_option (\<lambda>m. dom (storage m))
     (dropAll [exMatrix [2, 3] 0, exMatrix [2, 3] 0, exChild] exShared)
     = Some {}"
  by (simp add: LEGACY_decrement_def decrement_def LEGACY_createRaw_def freeStorage_def
      exChild_def exMatrix_def exShared_def)

section \<open>An Array from a scalar\<close>

lemma constructNew_CPU:
  "constructNew e s dtype CPU mem =
     Inr (\<lparr>m_location = CPU, m_dtype = dtype, m_dataStart = Some (nextAddr mem),
           m_dataOrigin = Some (nextAddr mem), m_references = Some (nextAddr mem + 1),
           m_extent = e, m_stride = s, m_isScalar = False, m_isChild = False\<rparr>,
          mem\<lparr>storage := (storage mem)(nextAddr mem \<mapsto>
                  \<lparr>bufLocation = CPU, bufDtype = dtype,
                   bufData = replicate (nat (Extent_size e)) Uninitialised\<rparr>),
              counters := (counters mem)(nextAddr mem + 1 \<mapsto> 1),
              nextAddr := nextAddr mem + 2\<rparr>)"
  by (simp add: constructNew_def Let_def)

text \<open>
  C8. \<open>Array(v)\<close> and \<open>Array(v, dtype)\<close>, whose location is the default \<open>CPU\<close>,
  always succeed: one block of exactly one element is allocated on the host, the element
  holds \<open>v\<close> converted to the requested dtype, the reference count starts at 1,
  \<open>isScalar\<close> is set and the extent is \<open>[1]\<close>. The first equation is the integral
  template of the legacy header, the second the overloads for the other scalar types.
\<close>

theorem scalar_constructor:
  "LEGACY_Array_fromIntegral val dtype CPU mem =
     Inr (\<lparr>m_location = CPU, m_dtype = dtype, m_dataStart = Some (nextAddr mem),
           m_dataOrigin = Some (nextAddr mem), m_references = Some (nextAddr mem + 1),
           m_extent = [1], m_stride = Stride_fromExtent [1], m_isScalar = True,
           m_isChild = False\<rparr>,
          mem\<lparr>storage := (storage mem)(nextAddr mem \<mapsto>
                  \<lparr>bufLocation = CPU, bufDtype = dtype,
                   bufData = [Converted dtype (IntVal val)]\<rparr>),
              counters := (counters mem)(nextAddr mem + 1 \<mapsto> 1),
              nextAddr := nextAddr mem + 2\<rparr>) \<and>
   Array_fromScalar v dtype CPU mem =
     Inr (\<lparr>m_location = CPU, m_dtype = dtype, m_dataStart = Some (nextAddr mem),
           m_dataOrigin = Some (nextAddr mem), m_references = Some (nextAddr mem + 1),
           m_extent = [1], m_stride = Stride_fromExtent [1], m_isScalar = True,
           m_isChild = False\<rparr>,
          mem\<lparr>storage := (storage mem)(nextAddr mem \<mapsto>
                  \<lparr>bufLocation = CPU, bufDtype = dtype, bufData = [Converted dtype v]\<rparr>),
              counters := (counters mem)(nextAddr mem + 1 \<mapsto> 1),
              nextAddr := nextAddr mem + 2\<rparr>)"
  by (simp add: LEGACY_Array_fromIntegral_def Array_fromScalar_def constructNew_CPU
      writeFirst_def Extent_size_def)

text \<open>
  With an explicit \<open>locn = GPU\<close> the legacy template puts the element on the device,
  or fails in a build without CUDA.
\<close>

lemma scalar_constructor_GPU:
  "LEGACY_Array_fromIntegral val dtype GPU mem =
     (if hasCuda mem
      then Inr (\<lparr>m_location = GPU, m_dtype = dtype, m_dataStart = Some (nextAddr mem),
                 m_dataOrigin = Some (nextAddr mem), m_references = Some (nextAddr mem + 1),
                 m_extent = [1], m_stride = Stride_fromExtent [1], m_isScalar = True,
                 m_isChild = False\<rparr>,
                mem\<lparr>storage := (storage mem)(nextAddr mem \<mapsto>
                        \<lparr>bufLocation = GPU, bufDtype = dtype,
                         bufData = [Converted dtype (IntVal (toInt64 val))]\<rparr>),
                    counters := (counters mem)(nextAddr mem + 1 \<mapsto> 1),
                    nextAddr := nextAddr mem + 2\<rparr>)
      else Inl (DeviceUnavailable, mem))"
  by (simp add: LEGACY_Array_fromIntegral_def constructNew_def writeFirst_def Extent_size_def
      Let_def)

section \<open>The seed of fillRandom\<close>

lemma fillRandomCalls_append:
  "fillRandomCalls self (xs @ ys) st = fillRandomCalls self ys (fillRandomCalls self xs st)"
  by (induction xs arbitrary: st) auto

lemma fillRandom_statics:
  "statSeed (fst (fillRandom self seed clock st)) =
     (if seed \<noteq> - 1 then seed
      else if statSeedSet st \<and> prevSeed st = - 1 then statSeed st else clock)"
  "prevSeed (fst (fillRandom self seed clock st)) = seed"
  "statSeedSet (fst (fillRandom self seed clock st))"
  by (auto simp: fillRandom_def Let_def)

text \<open>
  C9 (as amended). A call with an explicit seed (any value but \<open>-1\<close>) makes that value
  the seed. A call with the default seed keeps the seed of the preceding call exactly
  when that call was default-seeded too; as the first call, or after an explicitly
  seeded call, it takes a fresh seed from the clock. The kernel receives the seed so
  chosen. The statics belong to one instantiation of the template.
\<close>

theorem fillRandom_sticky_seed:
  "statSeed (fst (fillRandom self seed clock st)) =
     (if seed \<noteq> - 1 then seed
      else if statSeedSet st \<and> prevSeed st = - 1 then statSeed st else clock) \<and>
   (case snd (fillRandom self seed clock st) of
      Inl err \<Rightarrow> True
    | Inr (self', p, kernelSeed) \<Rightarrow>
        kernelSeed = statSeed (fst (fillRandom self seed clock st))) \<and>
   statSeed (fillRandomCalls self [(- 1, clock)] seedState_initial) = clock \<and>
   statSeed (fillRandomCalls self (calls @ [(s, t), (- 1, clock)]) st) =
     (if s = - 1 then statSeed (fillRandomCalls self (calls @ [(s, t)]) st) else clock) \<and>
   statSeed (fillRandomCalls self (calls @ [(s, t), (seed, clock)]) st) =
     (if seed \<noteq> - 1 then seed
      else if s = - 1 then statSeed (fillRandomCalls self (calls @ [(s, t)]) st) else clock)"
proof -
  have 1: "case snd (fillRandom self seed clock st) of
      Inl err \<Rightarrow> True
    | Inr (self', p, kernelSeed) \<Rightarrow>
        kernelSeed = statSeed (fst (fillRandom self seed clock st))"
    by (simp add: fillRandom_def Let_def split: sum.splits)
  have 2: "statSeed (fillRandomCalls self [(- 1, clock)] seedState_initial) = clock"
    by (simp add: fillRandom_statics seedState_initial_def)
  let ?st = "fillRandomCalls self calls st"
  have 3: "statSeed (fillRandomCalls self (calls @ [(s, t), (seed', clock)]) st) =
     (if seed' \<noteq> - 1 then seed'
      else if s = - 1 then statSeed (fillRandomCalls self (calls @ [(s, t)]) st) else clock)"
    for seed'
    by (simp add: fillRandomCalls_append fillRandom_statics)
  from 1 2 3 [of seed] 3 [of "- 1"] show ?thesis
    by (simp add: fillRandom_statics)
qed

theorem fillRandom_sticky_seed_witness:
  "statSeed (fillRandomCalls (exMatrix [2, 3] 0) [(- 1, 100), (- 1, 300)] seedState_initial)
     = 100 \<and>
   statSeed (fillRandomCalls (exMatrix [2, 3] 0) [(5, 100), (- 1, 300)] seedState_initial)
     = 300 \<and>
   statSeed (fillRandomCalls (exMatrix [2, 3] 0) [(- 1, 100), (5, 300)] seedState_initial)
     = 5"
  using fillRandom_sticky_seed [where self = "exMatrix [2, 3] 0" and calls = "[]"
      and s = "- 1" and t = 100 and st = seedState_initial and clock = 300]
    fillRandom_sticky_seed [where self = "exMatrix [2, 3] 0" and calls = "[]"
      and s = 5 and t = 100 and st = seedState_initial and clock = 300]
    fillRandom_sticky_seed [where self = "exMatrix [2, 3] 0" and calls = "[]"
      and s = "- 1" and t = 100 and st = seedState_initial and seed = 5 and clock = 300]
  by (simp add: fillRandom_statics seedState_initial_def)

text \<open>
  C9 as stated fails: after a default-seeded and an explicitly seeded call, a third call
  with the default seed is not the first default-seeded call, yet it does not reuse the
  seed 5 of the call before it and reads the clock again.
\<close>

theorem fillRandom_clock_after_explicit_counterexample:
  "statSeed (fillRandomCalls (exMatrix [2, 3] 0) [(- 1, 100), (5, 200)] seedState_initial)
     = 5 \<and>
   statSeed (fillRandomCalls (exMatrix [2, 3] 0) [(- 1, 100), (5, 200), (- 1, 300)]
     seedState_initial) = 300"
  by (simp add: fillRandom_statics seedState_initial_def)

section \<open>Operand checks of the map kernels\<close>








section \<open>Bit references\<close>

lemma shiftOne_defined: "b < 64 \<Longrightarrow> shiftOne b = Some (2 ^ unat b)"
  by (simp add: shiftOne_def word_less_nat_alt)

lemma shiftOne_undefined: "64 \<le> b \<Longrightarrow> shiftOne b = None"
  by (simp add: shiftOne_def word_le_nat_alt)

text \<open>
  C10. The constructor of \<open>ValueReference<bool>\<close> accepts every bit index below 512 and
  fails its assertion from 512 on, whatever the message says about \<open>[0, 64)\<close>.
  \<open>get\<close> and \<open>set\<close> work with the mask \<open>1ull << b\<close> on the referenced word: for
  \<open>b < 64\<close> they read and write bit \<open>b\<close>; for an accepted \<open>b\<close> of 64 or more the
  shift is undefined.
\<close>

theorem ValueReference_bool_bit_range:
  "(b < 512 \<longrightarrow> ValueReference_bool_new p b = Inr \<lparr>m_value = p, m_bit = b\<rparr>) \<and>
   (512 \<le> b \<longrightarrow> ValueReference_bool_new p b = Inl AssertionFailed) \<and>
   (b < 64 \<longrightarrow>
      ValueReference_bool_get d \<lparr>m_value = p, m_bit = b\<rparr> words
        = Some (words p AND push_bit (unat b) 1 \<noteq> 0) \<and>
      ValueReference_bool_get d \<lparr>m_value = p, m_bit = b\<rparr> words
        = Some (bit (words p) (unat b)) \<and>
      ValueReference_bool_set d \<lparr>m_value = p, m_bit = b\<rparr> v words
        = Some (words(p := (if v then words p OR push_bit (unat b) 1
                            else words p AND NOT (push_bit (unat b) 1)))) \<and>
      ValueReference_bool_set d \<lparr>m_value = p, m_bit = b\<rparr> v words
        = Some (words(p := (if v then set_bit (unat b) (words p)
                            else unset_bit (unat b) (words p))))) \<and>
   (64 \<le> b \<longrightarrow>
      ValueReference_bool_get d \<lparr>m_value = p, m_bit = b\<rparr> words = None \<and>
      ValueReference_bool_set d \<lparr>m_value = p, m_bit = b\<rparr> v words = None)"
proof -
  have 1: "b < 512 \<longrightarrow> ValueReference_bool_new p b = Inr \<lparr>m_value = p, m_bit = b\<rparr>"
    by (simp add: ValueReference_bool_new_def)
  have 2: "512 \<le> b \<longrightarrow> ValueReference_bool_new p b = Inl AssertionFailed"
    by (auto simp: ValueReference_bool_new_def)
  have 3: "ValueReference_bool_get d \<lparr>m_value = p, m_bit = b\<rparr> words
        = Some (words p AND push_bit (unat b) 1 \<noteq> 0)" if "b < 64"
    using shiftOne_defined [OF that]
    by (cases d) (simp_all add: ValueReference_bool_get_def)
  have 4: "(words p AND push_bit (unat b) 1 \<noteq> 0) = bit (words p) (unat b)"
    by (simp add: and_exp_eq_0_iff_not_bit)
  have 5: "ValueReference_bool_set d \<lparr>m_value = p, m_bit = b\<rparr> v words
        = Some (words(p := (if v then words p OR push_bit (unat b) 1
                            else words p AND NOT (push_bit (unat b) 1))))" if "b < 64"
    using shiftOne_defined [OF that]
    by (cases d) (simp_all add: ValueReference_bool_set_def)
  have 6: "(if v then words p OR push_bit (unat b) 1
            else words p AND NOT (push_bit (unat b) 1))
           = (if v then set_bit (unat b) (words p) else unset_bit (unat b) (words p))"
    by (simp add: set_bit_eq_or unset_bit_eq_and_not)
  have 7: "ValueReference_bool_get d \<lparr>m_value = p, m_bit = b\<rparr> words = None \<and>
      ValueReference_bool_set d \<lparr>m_value = p, m_bit = b\<rparr> v words = None" if "64 \<le> b"
    using shiftOne_undefined [OF that]
    by (simp add: ValueReference_bool_get_def ValueReference_bool_set_def)
  from 1 2 3 5 7 show ?thesis
    unfolding 6 [symmetric] 4 [symmetric] by blast
qed

theorem ValueReference_bool_bit_range_witness:
  "ValueReference_bool_new 0 511 = Inr \<lparr>m_value = 0, m_bit = 511\<rparr> \<and>
   ValueReference_bool_new 0 64 = Inr \<lparr>m_value = 0, m_bit = 64\<rparr> \<and>
   ValueReference_bool_new 0 512 = Inl AssertionFailed \<and>
   ValueReference_bool_get device_CPU \<lparr>m_value = 0, m_bit = 3\<rparr> (\<lambda>a. 8) = Some True \<and>
   ValueReference_bool_set device_CPU \<lparr>m_value = 0, m_bit = 3\<rparr> False (\<lambda>a. 12)
     = Some ((\<lambda>a. 12)(0 := 4)) \<and>
   ValueReference_bool_get device_CPU \<lparr>m_value = 0, m_bit = 64\<rparr> (\<lambda>a. 8) = None"
  using ValueReference_bool_bit_range [of 511 0]
    ValueReference_bool_bit_range [of 64 0 device_CPU "\<lambda>a. 8"]
    ValueReference_bool_bit_range [of 512 0]
    ValueReference_bool_bit_range [of 3 0 device_CPU "\<lambda>a. 8"]
    ValueReference_bool_bit_range [of 3 0 device_CPU "\<lambda>a. 12" False]
  by simp

end
